theory Spec2Isabelle
  imports Complex_Main "HOL-Library.Char_ord" "HOL-Library.List_Lexorder" "HOL-Library.Sublist"
begin

section \<open>Data frames\<close>

text \<open>
  The dashboard \<^verbatim>\<open>app.py\<close> is a linear script over pandas data frames. A frame is
  modelled row-major: the column labels in their order, and one list of cells per row, in
  the frame's row order. A cell is a text value, a finite float (a real number) or the
  missing value NaN. Infinite floats are not modelled. Frames read from a CSV file are
  rectangular: every row has one cell per column (\<open>rectangular\<close> below).
\<close>

datatype cell = Str (str_of: string) | Num (num_of: real) | NaN

datatype error = KeyError string | TypeError | ValueError

record dataframe =
  columns :: "string list"
  rows :: "cell list list"

definition rectangular :: "dataframe \<Rightarrow> bool" where
  "rectangular df = list_all (\<lambda>r. length r = length (columns df)) (rows df)"

text \<open>Position of a column label (the first one, should a label repeat).\<close>

fun get_loc :: "string list \<Rightarrow> string \<Rightarrow> nat option" where
  "get_loc [] c = None"
| "get_loc (x # xs) c = (if x = c then Some 0 else map_option Suc (get_loc xs c))"

text \<open>\<^verbatim>\<open>df[c]\<close>: the column as a list of cells, KeyError when there is no such column.\<close>

definition getitem :: "dataframe \<Rightarrow> string \<Rightarrow> error + cell list" where
  "getitem df c =
     (case get_loc (columns df) c of
        None \<Rightarrow> Inl (KeyError c)
      | Some i \<Rightarrow> Inr (map (\<lambda>r. r ! i) (rows df)))"

text \<open>
  \<^verbatim>\<open>df[c] = vs\<close>, for values computed row by row from the same frame: an existing
  column is overwritten in place, a new one is appended after the last column.
\<close>

definition setitem :: "dataframe \<Rightarrow> string \<Rightarrow> cell list \<Rightarrow> dataframe" where
  "setitem df c vs =
     (case get_loc (columns df) c of
        None \<Rightarrow> \<lparr>columns = columns df @ [c], rows = map2 (\<lambda>r v. r @ [v]) (rows df) vs\<rparr>
      | Some i \<Rightarrow> df\<lparr>rows := map2 (\<lambda>r v. r[i := v]) (rows df) vs\<rparr>)"

text \<open>\<^verbatim>\<open>df[mask]\<close>: the rows whose mask entry is True, in the frame's order.\<close>

definition loc_mask :: "dataframe \<Rightarrow> bool list \<Rightarrow> dataframe" where
  "loc_mask df m = df\<lparr>rows := map fst (filter snd (zip (rows df) m))\<rparr>"

text \<open>\<^verbatim>\<open>series.isin(values)\<close>; pandas lets a missing value match a missing value.\<close>

definition isin :: "cell list \<Rightarrow> cell list \<Rightarrow> bool list" where
  "isin xs vals = map (\<lambda>x. x \<in> set vals) xs"

text \<open>\<^verbatim>\<open>series == s\<close> for a text scalar: False on a missing value.\<close>

definition eq_scalar :: "cell list \<Rightarrow> string \<Rightarrow> bool list" where
  "eq_scalar xs s = map (\<lambda>x. x = Str s) xs"

text \<open>
  A column read as a float series: None is NaN. Arithmetic, \<^verbatim>\<open>mean\<close> and \<^verbatim>\<open>pd.cut\<close>
  on a text column raise TypeError.
\<close>

fun as_floats :: "cell list \<Rightarrow> error + real option list" where
  "as_floats [] = Inr []"
| "as_floats (Str s # cs) = Inl TypeError"
| "as_floats (Num x # cs) =
     (case as_floats cs of Inl e \<Rightarrow> Inl e | Inr vs \<Rightarrow> Inr (Some x # vs))"
| "as_floats (NaN # cs) =
     (case as_floats cs of Inl e \<Rightarrow> Inl e | Inr vs \<Rightarrow> Inr (None # vs))"

definition float_cell :: "real option \<Rightarrow> cell" where
  "float_cell v = (case v of None \<Rightarrow> NaN | Some x \<Rightarrow> Num x)"

definition label_cell :: "string option \<Rightarrow> cell" where
  "label_cell v = (case v of None \<Rightarrow> NaN | Some l \<Rightarrow> Str l)"

section \<open>Loading: the derived BMI category\<close>

text \<open>
  \<^verbatim>\<open>bins.searchsorted(x, side='left')\<close> on increasing bin edges: the number of edges
  strictly below \<open>x\<close>.
\<close>

definition searchsorted_left :: "real list \<Rightarrow> real \<Rightarrow> nat" where
  "searchsorted_left bins x = length (takeWhile (\<lambda>b. b < x) bins)"

text \<open>
  \<^verbatim>\<open>pd.cut(x, bins, labels)\<close> with the defaults \<^verbatim>\<open>right=True, include_lowest=False\<close>,
  on one value: the value is missing, or its insertion point is before the first edge or
  after the last one, and the result is missing; otherwise the label of the interval that
  ends at the insertion point. (pandas rejects a label list that is not one shorter than
  the edges; the one call of the program passes four labels for five edges.)
\<close>

definition cut :: "real list \<Rightarrow> string list \<Rightarrow> real option \<Rightarrow> string option" where
  "cut bins labels v =
     (case v of
        None \<Rightarrow> None
      | Some x \<Rightarrow>
          (let ids = searchsorted_left bins x
           in if ids = length bins \<or> ids = 0 then None else Some (labels ! (ids - 1))))"

definition bmi_category :: "real option \<Rightarrow> string option" where
  "bmi_category v =
     cut [0, 18.5, 25, 30, 100] [''Underweight'', ''Normal'', ''Overweight'', ''Obese''] v"

text \<open>
  \<^verbatim>\<open>load_data\<close>, after \<^verbatim>\<open>pd.read_csv\<close> has produced the frame \<open>raw\<close> (the file is
  not part of the program: the frame it holds is the parameter).
\<close>

definition load_data :: "dataframe \<Rightarrow> error + dataframe" where
  "load_data raw =
     (case getitem raw ''BMI'' of
        Inl e \<Rightarrow> Inl e
      | Inr bmi_cells \<Rightarrow>
          (case as_floats bmi_cells of
             Inl e \<Rightarrow> Inl e
           | Inr bmi \<Rightarrow>
               Inr (setitem raw ''BMI_Category'' (map (label_cell \<circ> bmi_category) bmi))))"

section \<open>Filters\<close>

text \<open>
  The sidebar's two filters (lines 51 to 53): the multiselect's list of names, then the
  category selector, whose value \<^verbatim>\<open>'All'\<close> switches the second filter off.
\<close>

definition apply_filters :: "dataframe \<Rightarrow> cell list \<Rightarrow> string \<Rightarrow> error + dataframe" where
  "apply_filters df selected_students selected_bmi =
     (case getitem df ''Name'' of
        Inl e \<Rightarrow> Inl e
      | Inr names \<Rightarrow>
          (let filtered_df = loc_mask df (isin names selected_students)
           in if selected_bmi \<noteq> ''All'' then
                (case getitem filtered_df ''BMI_Category'' of
                   Inl e \<Rightarrow> Inl e
                 | Inr cats \<Rightarrow> Inr (loc_mask filtered_df (eq_scalar cats selected_bmi)))
              else Inr filtered_df))"

section \<open>Overview metrics\<close>

text \<open>
  \<^verbatim>\<open>Series.mean()\<close> (pandas' nanmean): the missing entries count as 0 in the sum and
  are left out of the count; no entry present gives NaN.
\<close>

definition series_mean :: "real option list \<Rightarrow> real option" where
  "series_mean xs =
     (let count = length (filter (\<lambda>v. v \<noteq> None) xs);
          the_sum = sum_list (map (\<lambda>v. case v of None \<Rightarrow> 0 | Some x \<Rightarrow> x) xs)
      in if count = 0 then None else Some (the_sum / real count))"

text \<open>\<^verbatim>\<open>Series.max()\<close>: the largest entry that is present, NaN when there is none.\<close>

fun series_max :: "real option list \<Rightarrow> real option" where
  "series_max [] = None"
| "series_max (None # vs) = series_max vs"
| "series_max (Some x # vs) =
     (case series_max vs of None \<Rightarrow> Some x | Some m \<Rightarrow> Some (max x m))"

text \<open>
  Python's \<^verbatim>\<open>int(x)\<close> on a float: ValueError on NaN, otherwise the integer part
  (rounding toward zero).
\<close>

definition py_trunc :: "real \<Rightarrow> int" where
  "py_trunc x = (if 0 \<le> x then \<lfloor>x\<rfloor> else \<lceil>x\<rceil>)"

definition py_int :: "real option \<Rightarrow> error + int" where
  "py_int v = (case v of None \<Rightarrow> Inl ValueError | Some x \<Rightarrow> Inr (py_trunc x))"

definition float_series :: "dataframe \<Rightarrow> string \<Rightarrow> error + real option list" where
  "float_series df c = (case getitem df c of Inl e \<Rightarrow> Inl e | Inr cs \<Rightarrow> as_floats cs)"

record metrics =
  total_students :: nat
  avg_bmi :: "real option"
  avg_grip :: "real option"
  max_squat :: int

text \<open>
  The four metrics of the overview tab (lines 72 to 83), in the script's order; an
  exception ends the run of the script. The text formatting of the two means is not
  modelled (a NaN mean is formatted, it does not raise).
\<close>

definition overview :: "dataframe \<Rightarrow> error + metrics" where
  "overview filtered_df =
     (case float_series filtered_df ''BMI'' of
        Inl e \<Rightarrow> Inl e
      | Inr bmi \<Rightarrow>
     (case float_series filtered_df ''Rel_Grip_perKg'' of
        Inl e \<Rightarrow> Inl e
      | Inr grip \<Rightarrow>
     (case float_series filtered_df ''LB_Squat_1min_reps'' of
        Inl e \<Rightarrow> Inl e
      | Inr squat \<Rightarrow>
     (case py_int (series_max squat) of
        Inl e \<Rightarrow> Inl e
      | Inr m \<Rightarrow>
          Inr \<lparr>total_students = length (rows filtered_df),
               avg_bmi = series_mean bmi,
               avg_grip = series_mean grip,
               max_squat = m\<rparr>))))"

section \<open>Strength tab, explorer and export\<close>

text \<open>
  Element-wise float division of two series. A zero divisor gives an infinity or NaN in
  IEEE arithmetic; the model has no infinities and records NaN.
\<close>

definition truediv :: "real option \<Rightarrow> real option \<Rightarrow> real option" where
  "truediv a b =
     (case (a, b) of
        (Some x, Some y) \<Rightarrow> if y = 0 then None else Some (x / y)
      | _ \<Rightarrow> None)"

text \<open>
  \<^verbatim>\<open>df.sort_values(c)\<close>, ascending, missing keys last (in their frame order). Text
  keys compare by code point, numeric keys by value; a column mixing both cannot be
  compared. Rows with equal keys are kept in frame order here (pandas' default sort does
  not promise an order among equal keys).
\<close>

definition sort_values :: "dataframe \<Rightarrow> string \<Rightarrow> error + dataframe" where
  "sort_values df c =
     (case get_loc (columns df) c of
        None \<Rightarrow> Inl (KeyError c)
      | Some i \<Rightarrow>
          (let present = filter (\<lambda>r. r ! i \<noteq> NaN) (rows df);
               missing = filter (\<lambda>r. r ! i = NaN) (rows df)
           in if list_all (\<lambda>r. is_Str (r ! i)) present then
                Inr (df\<lparr>rows := sort_key (\<lambda>r. str_of (r ! i)) present @ missing\<rparr>)
              else if list_all (\<lambda>r. is_Num (r ! i)) present then
                Inr (df\<lparr>rows := sort_key (\<lambda>r. num_of (r ! i)) present @ missing\<rparr>)
              else Inl TypeError))"

text \<open>
  The strength tab (lines 98 to 102) rebinds the script's variable \<^verbatim>\<open>filtered_df\<close>:
  a copy with the column \<^verbatim>\<open>Rel_Strength_perKg\<close> set, sorted by name. The result is
  the value of \<^verbatim>\<open>filtered_df\<close> for the rest of the script.
\<close>

definition tab2 :: "dataframe \<Rightarrow> error + dataframe" where
  "tab2 filtered_df =
     (case float_series filtered_df ''UB_Strength_kg'' of
        Inl e \<Rightarrow> Inl e
      | Inr ub \<Rightarrow>
     (case float_series filtered_df ''Weight_kg'' of
        Inl e \<Rightarrow> Inl e
      | Inr w \<Rightarrow>
          sort_values
            (setitem filtered_df ''Rel_Strength_perKg'' (map float_cell (map2 truediv ub w)))
            ''Name''))"

text \<open>
  \<^verbatim>\<open>df.to_csv(index=False)\<close> writes one header line, the column labels in the
  frame's order, then one line per row in the frame's order. The model keeps each line
  as its list of fields; how a field is quoted, a float is printed and the text is
  encoded is pandas' business and is not modelled.
\<close>

record csv =
  header :: "string list"
  records :: "cell list list"

definition convert_df_to_csv :: "dataframe \<Rightarrow> csv" where
  "convert_df_to_csv df = \<lparr>header = columns df, records = rows df\<rparr>"

text \<open>
  One run of the script: what the filters produced, the overview metrics, and the frame
  that the throw charts (tab 3), the data explorer and the download (tab 4) read from
  the variable \<^verbatim>\<open>filtered_df\<close>. The charts themselves are built by plotly and are
  not modelled.
\<close>

record page =
  filter_output :: dataframe
  overview_metrics :: metrics
  throw_view :: dataframe
  explorer_view :: dataframe
  download :: csv

definition run_script :: "dataframe \<Rightarrow> cell list \<Rightarrow> string \<Rightarrow> error + page" where
  "run_script raw selected_students selected_bmi =
     (case load_data raw of
        Inl e \<Rightarrow> Inl e
      | Inr df \<Rightarrow>
     (case apply_filters df selected_students selected_bmi of
        Inl e \<Rightarrow> Inl e
      | Inr filtered_df \<Rightarrow>
     (case overview filtered_df of
        Inl e \<Rightarrow> Inl e
      | Inr m \<Rightarrow>
     (case tab2 filtered_df of
        Inl e \<Rightarrow> Inl e
      | Inr filtered_df2 \<Rightarrow>
          Inr \<lparr>filter_output = filtered_df,
               overview_metrics = m,
               throw_view = filtered_df2,
               explorer_view = filtered_df2,
               download = convert_df_to_csv filtered_df2\<rparr>))))"

text \<open>
  A small table with the columns the script reads, for the concrete checks below.
\<close>

definition schema :: "string list" where
  "schema = [''Name'', ''Height_cm'', ''Weight_kg'', ''BMI'', ''Rel_Grip_perKg'',
     ''UB_Strength_kg'', ''LB_Squat_1min_reps'', ''Flexibility_cm'', ''MB_OH_Best_m'',
     ''MB_OH_Mean_m'', ''MB_OH_Trials'']"

definition example_raw :: dataframe where
  "example_raw = \<lparr>columns = schema, rows =
     [[Str ''Cleo'', Num 150, Num 45, Num 20, Num 0.5, Num 18, Num 5, Num 20, Num 4, Num 3.5, Num 3],
      [Str ''Abe'', Num 160, Num 70.4, Num 27.5, Num 0.4, Num 22, NaN, Num 15, Num 5, Num 4.5, Num 3],
      [Str ''Bea'', Num 140, Num 33, NaN, NaN, Num 11, Num 8, Num 25, Num 3, Num 2.5, Num 2]]\<rparr>"

text \<open>The table as \<^verbatim>\<open>load_data\<close> returns it, and every name of it selected.\<close>

definition example_df :: dataframe where
  "example_df = \<lparr>columns = schema @ [''BMI_Category''], rows =
     [[Str ''Cleo'', Num 150, Num 45, Num 20, Num 0.5, Num 18, Num 5, Num 20, Num 4, Num 3.5, Num 3,
       Str ''Normal''],
      [Str ''Abe'', Num 160, Num 70.4, Num 27.5, Num 0.4, Num 22, NaN, Num 15, Num 5, Num 4.5, Num 3,
       Str ''Overweight''],
      [Str ''Bea'', Num 140, Num 33, NaN, NaN, Num 11, Num 8, Num 25, Num 3, Num 2.5, Num 2,
       NaN]]\<rparr>"

definition example_names :: "cell list" where
  "example_names = [Str ''Cleo'', Str ''Abe'', Str ''Bea'']"

section \<open>Notions used in the statements\<close>

text \<open>The float a numeric cell holds (None for a missing one).\<close>

fun cell_float :: "cell \<Rightarrow> real option" where
  "cell_float (Num x) = Some x"
| "cell_float c = None"

text \<open>The entries of a float series that are present, in order.\<close>

fun dropna :: "real option list \<Rightarrow> real list" where
  "dropna [] = []"
| "dropna (None # vs) = dropna vs"
| "dropna (Some x # vs) = x # dropna vs"

section \<open>The derived category\<close>

lemma bmi_category_Some:
  "bmi_category (Some b) =
     (if 0 < b \<and> b \<le> 18.5 then Some ''Underweight''
      else if 18.5 < b \<and> b \<le> 25 then Some ''Normal''
      else if 25 < b \<and> b \<le> 30 then Some ''Overweight''
      else if 30 < b \<and> b \<le> 100 then Some ''Obese''
      else None)"
  by (simp add: bmi_category_def cut_def searchsorted_left_def Let_def)

lemma bmi_category_None: "bmi_category None = None"
  by (simp add: bmi_category_def cut_def)

text \<open>
  C1. The derived category of a BMI value \<open>b\<close> is Underweight on (0, 18.5], Normal on
  (18.5, 25], Overweight on (25, 30], Obese on (30, 100], and absent (no error) for every
  other \<open>b\<close> and for a missing BMI; the values 17.0, 22.0, 27.0, 33.0, 50.5 give
  Underweight, Normal, Overweight, Obese, Obese.
\<close>

theorem bmi_category_bands:
  "bmi_category None = None \<and>
   bmi_category (Some b) =
     (if 0 < b \<and> b \<le> 18.5 then Some ''Underweight''
      else if 18.5 < b \<and> b \<le> 25 then Some ''Normal''
      else if 25 < b \<and> b \<le> 30 then Some ''Overweight''
      else if 30 < b \<and> b \<le> 100 then Some ''Obese''
      else None) \<and>
   map bmi_category [Some 17.0, Some 22.0, Some 27.0, Some 33.0, Some 50.5] =
     [Some ''Underweight'', Some ''Normal'', Some ''Overweight'', Some ''Obese'', Some ''Obese'']"
  by (simp add: bmi_category_Some bmi_category_None)

section \<open>The filters\<close>

lemma mask_rows_map: "map fst (filter snd (zip xs (map P xs))) = filter P xs"
  by (induction xs) auto

lemmas filter_simps = apply_filters_def getitem_def loc_mask_def isin_def eq_scalar_def
  mask_rows_map Let_def comp_def

lemma apply_filters_eq:
  assumes "get_loc (columns df) ''Name'' = Some i"
    and "get_loc (columns df) ''BMI_Category'' = Some j"
  shows "apply_filters df S C =
    Inr (df\<lparr>rows := filter (\<lambda>r. r ! i \<in> set S \<and> (C = ''All'' \<or> r ! j = Str C)) (rows df)\<rparr>)"
  using assms by (auto simp add: filter_simps conj_commute)

lemma apply_filters_all:
  assumes "get_loc (columns df) ''Name'' = Some i"
  shows "apply_filters df (map (\<lambda>r. r ! i) (rows df)) ''All'' = Inr df"
  using assms by (simp add: filter_simps)

text \<open>What a successful run of the filters has done, by the category selector's value.\<close>

lemma apply_filters_cases:
  assumes "apply_filters df S C = Inr v"
  obtains i where "get_loc (columns df) ''Name'' = Some i" and "C = ''All''"
      and "v = df\<lparr>rows := filter (\<lambda>r. r ! i \<in> set S) (rows df)\<rparr>"
  | i j where "get_loc (columns df) ''Name'' = Some i" and "C \<noteq> ''All''"
      and "get_loc (columns df) ''BMI_Category'' = Some j"
      and "v = df\<lparr>rows := filter (\<lambda>r. r ! i \<in> set S \<and> r ! j = Str C) (rows df)\<rparr>"
  using assms
  by (auto simp add: filter_simps conj_commute split: option.splits if_splits)

lemma apply_filters_idem:
  assumes "apply_filters df S C = Inr v"
  shows "apply_filters v S C = Inr v"
  using assms
  by (rule apply_filters_cases) (auto simp add: filter_simps cong: conj_cong)

lemma apply_filters_subseq:
  assumes "apply_filters df S C = Inr v"
  shows "subseq (rows v) (rows df) \<and> set (rows v) \<subseteq> set (rows df) \<and> columns v = columns df"
  using assms by (rule apply_filters_cases) auto

lemma example_df_Name: "get_loc (columns example_df) ''Name'' = Some 0"
  by code_simp

lemma example_df_BMI_Category: "get_loc (columns example_df) ''BMI_Category'' = Some 11"
  by code_simp

text \<open>
  C3. On a table that has the columns Name and BMI_Category (at positions \<open>i\<close> and
  \<open>j\<close>), the filters return exactly the rows whose name is among the selected ones and,
  unless the selector is "All", whose category equals the selector, in the table's row
  order and with the table's columns. With every name of the table selected and "All",
  the result is the table itself.
\<close>

theorem apply_filters_rows:
  assumes "get_loc (columns df) ''Name'' = Some i"
    and "get_loc (columns df) ''BMI_Category'' = Some j"
  shows "apply_filters df S C =
      Inr (df\<lparr>rows :=
        filter (\<lambda>r. r ! i \<in> set S \<and> (C = ''All'' \<or> r ! j = Str C)) (rows df)\<rparr>) \<and>
    apply_filters df (map (\<lambda>r. r ! i) (rows df)) ''All'' = Inr df"
  using apply_filters_eq [OF assms] apply_filters_all [OF assms(1)] by simp

theorem apply_filters_rows_witness:
  "get_loc (columns example_df) ''Name'' = Some 0 \<and>
   get_loc (columns example_df) ''BMI_Category'' = Some 11 \<and>
   apply_filters example_df [Str ''Bea'', Str ''Cleo''] ''Normal'' =
      Inr (example_df\<lparr>rows :=
        filter (\<lambda>r. r ! 0 \<in> set [Str ''Bea'', Str ''Cleo''] \<and>
                  (''Normal'' = ''All'' \<or> r ! 11 = Str ''Normal'')) (rows example_df)\<rparr>) \<and>
   apply_filters example_df (map (\<lambda>r. r ! 0) (rows example_df)) ''All'' = Inr example_df"
  using example_df_Name example_df_BMI_Category
    apply_filters_rows [OF example_df_Name example_df_BMI_Category,
      of "[Str ''Bea'', Str ''Cleo'']" "''Normal''"]
  by blast

text \<open>
  C6. The filters are a function of the table and the two selections, and filtering
  their result again with the same selections returns that result: on a table with the
  two columns the filters succeed, and the second pass changes nothing.
\<close>

theorem apply_filters_idempotent:
  assumes "get_loc (columns df) ''Name'' = Some i"
    and "get_loc (columns df) ''BMI_Category'' = Some j"
  shows "\<exists>v. apply_filters df S C = Inr v \<and> apply_filters v S C = Inr v"
  using apply_filters_eq [OF assms] apply_filters_idem by blast

theorem apply_filters_idempotent_witness:
  "get_loc (columns example_df) ''Name'' = Some 0 \<and>
   get_loc (columns example_df) ''BMI_Category'' = Some 11 \<and>
   (\<exists>v. apply_filters example_df [Str ''Bea'', Str ''Cleo''] ''Normal'' = Inr v \<and>
        apply_filters v [Str ''Bea'', Str ''Cleo''] ''Normal'' = Inr v)"
  using example_df_Name example_df_BMI_Category
    apply_filters_idempotent [OF example_df_Name example_df_BMI_Category]
  by blast

text \<open>
  C7. On a table with the two columns the filters return a view whose rows are rows of
  the table (a subsequence of them, under the same columns), and with nothing selected
  they return the view without rows, for every value of the category selector.
\<close>

theorem apply_filters_subset:
  assumes "get_loc (columns df) ''Name'' = Some i"
    and "get_loc (columns df) ''BMI_Category'' = Some j"
  shows "(\<exists>v. apply_filters df S C = Inr v \<and> set (rows v) \<subseteq> set (rows df) \<and>
            subseq (rows v) (rows df) \<and> columns v = columns df) \<and>
         apply_filters df [] C = Inr (df\<lparr>rows := []\<rparr>)"
proof
  from apply_filters_eq [OF assms] obtain v where v: "apply_filters df S C = Inr v"
    by blast
  with apply_filters_subseq [OF v]
  show "\<exists>v. apply_filters df S C = Inr v \<and> set (rows v) \<subseteq> set (rows df) \<and>
            subseq (rows v) (rows df) \<and> columns v = columns df"
    by blast
  show "apply_filters df [] C = Inr (df\<lparr>rows := []\<rparr>)"
    using apply_filters_eq [OF assms, of "[]" C] by simp
qed

theorem apply_filters_subset_witness:
  "get_loc (columns example_df) ''Name'' = Some 0 \<and>
   get_loc (columns example_df) ''BMI_Category'' = Some 11 \<and>
   (\<exists>v. apply_filters example_df [Str ''Bea'', Str ''Cleo''] ''All'' = Inr v \<and>
        set (rows v) \<subseteq> set (rows example_df) \<and>
        subseq (rows v) (rows example_df) \<and> columns v = columns example_df) \<and>
   apply_filters example_df [] ''All'' = Inr (example_df\<lparr>rows := []\<rparr>)"
  using example_df_Name example_df_BMI_Category
    apply_filters_subset [OF example_df_Name example_df_BMI_Category,
      of "[Str ''Bea'', Str ''Cleo'']" "''All''"]
  by blast

section \<open>The category column of the loaded table\<close>

lemma get_loc_Some: "get_loc cols c = Some i \<Longrightarrow> i < length cols \<and> cols ! i = c"
  by (induction cols arbitrary: i) (auto split: if_splits)

lemma get_loc_append_new:
  "get_loc cols c = None \<Longrightarrow> get_loc (cols @ [c]) c = Some (length cols)"
  by (induction cols) (auto split: if_splits)

lemma get_loc_append_old: "get_loc cols c = Some i \<Longrightarrow> get_loc (cols @ [d]) c = Some i"
  by (induction cols arbitrary: i) (auto split: if_splits)

lemma map2_same: "map2 f xs (map g xs) = map (\<lambda>x. f x (g x)) xs"
  by (induction xs) auto

lemma as_floats_Inr:
  "as_floats cs = Inr vs \<Longrightarrow> vs = map cell_float cs \<and> (\<forall>c \<in> set cs. \<not> is_Str c)"
  by (induction cs arbitrary: vs rule: as_floats.induct) (auto split: sum.splits)

text \<open>
  In the table \<^verbatim>\<open>load_data\<close> returns, the category cell of every row is the
  category of that row's BMI cell.
\<close>

lemma load_data_rows:
  assumes "load_data raw = Inr df" and "rectangular raw"
  obtains k j where "get_loc (columns df) ''BMI'' = Some k"
    and "get_loc (columns df) ''BMI_Category'' = Some j"
    and "\<forall>r \<in> set (rows df). \<not> is_Str (r ! k) \<and>
           r ! j = label_cell (bmi_category (cell_float (r ! k)))"
proof -
  from assms(1) obtain k bmi where k: "get_loc (columns raw) ''BMI'' = Some k"
    and bmi: "as_floats (map (\<lambda>r. r ! k) (rows raw)) = Inr bmi"
    and df: "df = setitem raw ''BMI_Category'' (map (label_cell \<circ> bmi_category) bmi)"
    by (auto simp add: load_data_def getitem_def split: option.splits sum.splits)
  from as_floats_Inr [OF bmi] have bmi_eq: "bmi = map (\<lambda>r. cell_float (r ! k)) (rows raw)"
    and nostr: "\<forall>r \<in> set (rows raw). \<not> is_Str (r ! k)"
    by (auto simp add: comp_def)
  have cats: "map (label_cell \<circ> bmi_category) bmi =
      map (\<lambda>r. label_cell (bmi_category (cell_float (r ! k)))) (rows raw)"
    by (simp add: bmi_eq comp_def)
  have klen: "k < length (columns raw)" and kcol: "columns raw ! k = ''BMI''"
    using get_loc_Some [OF k] by auto
  have len: "\<forall>r \<in> set (rows raw). length r = length (columns raw)"
    using assms(2) by (simp add: rectangular_def list_all_iff)
  show thesis
  proof (cases "get_loc (columns raw) ''BMI_Category''")
    case None
    then have cols: "columns df = columns raw @ [''BMI_Category'']"
      and rws: "rows df =
        map (\<lambda>r. r @ [label_cell (bmi_category (cell_float (r ! k)))]) (rows raw)"
      by (simp_all add: df setitem_def cats map2_same)
    have "get_loc (columns df) ''BMI'' = Some k"
      by (simp add: cols get_loc_append_old [OF k])
    moreover have "get_loc (columns df) ''BMI_Category'' = Some (length (columns raw))"
      by (simp add: cols get_loc_append_new [OF None])
    moreover have "\<forall>r \<in> set (rows df). \<not> is_Str (r ! k) \<and>
           r ! length (columns raw) = label_cell (bmi_category (cell_float (r ! k)))"
      using len nostr klen by (auto simp add: rws nth_append)
    ultimately show thesis by (rule that)
  next
    case (Some j)
    have jlen: "j < length (columns raw)" and jcol: "columns raw ! j = ''BMI_Category''"
      using get_loc_Some [OF Some] by auto
    have kj: "k \<noteq> j" using kcol jcol by auto
    have cols: "columns df = columns raw"
      and rws: "rows df =
        map (\<lambda>r. r[j := label_cell (bmi_category (cell_float (r ! k)))]) (rows raw)"
      using Some by (simp_all add: df setitem_def cats map2_same)
    have "get_loc (columns df) ''BMI'' = Some k" by (simp add: cols k)
    moreover have "get_loc (columns df) ''BMI_Category'' = Some j" by (simp add: cols Some)
    moreover have "\<forall>r \<in> set (rows df). \<not> is_Str (r ! k) \<and>
           r ! j = label_cell (bmi_category (cell_float (r ! k)))"
      using len nostr jlen kj by (auto simp add: rws)
    ultimately show thesis by (rule that)
  qed
qed

lemma label_cell_bmi_category:
  assumes "label_cell (bmi_category (cell_float c)) = Str l"
  shows "\<exists>b. c = Num b \<and> 0 < b \<and> b \<le> 100"
proof (cases c)
  case (Num b)
  with assms show ?thesis
    by (auto simp add: label_cell_def bmi_category_Some split: if_splits)
qed (use assms in \<open>simp_all add: label_cell_def bmi_category_None\<close>)

lemma example_load_data: "load_data example_raw = Inr example_df"
  by code_simp

lemma example_rectangular: "rectangular example_raw"
  by code_simp

lemma example_Normal:
  "apply_filters example_df example_names ''Normal'' =
     Inr (example_df\<lparr>rows := [rows example_df ! 0]\<rparr>)"
  by code_simp

text \<open>
  C10. Take the table \<^verbatim>\<open>load_data\<close> returns for a rectangular input frame and a
  category selector other than "All". Every row of the filtered view has the selected
  category in its category cell (so none has a missing category), and its BMI cell holds
  a number in (0, 100]: rows whose BMI is missing or outside (0, 100] are not in the view.
\<close>

theorem concrete_category_view:
  assumes "load_data raw = Inr df" and "rectangular raw"
    and "apply_filters df S C = Inr v" and "C \<noteq> ''All''"
  shows "\<exists>k j. get_loc (columns v) ''BMI'' = Some k \<and>
           get_loc (columns v) ''BMI_Category'' = Some j \<and>
           (\<forall>r \<in> set (rows v). r ! j = Str C \<and> r ! j \<noteq> NaN \<and>
              (\<exists>b. r ! k = Num b \<and> 0 < b \<and> b \<le> 100))"
proof -
  from load_data_rows [OF assms(1,2)] obtain k j where
    k: "get_loc (columns df) ''BMI'' = Some k"
    and j: "get_loc (columns df) ''BMI_Category'' = Some j"
    and cat: "\<forall>r \<in> set (rows df). \<not> is_Str (r ! k) \<and>
           r ! j = label_cell (bmi_category (cell_float (r ! k)))"
    by blast
  from assms(3) show ?thesis
  proof (rule apply_filters_cases)
    fix i assume "C = ''All''"
    with assms(4) show ?thesis by simp
  next
    fix i j'
    assume j': "get_loc (columns df) ''BMI_Category'' = Some j'"
      and v: "v = df\<lparr>rows := filter (\<lambda>r. r ! i \<in> set S \<and> r ! j' = Str C) (rows df)\<rparr>"
    from j j' have jj: "j' = j" by simp
    have "\<forall>r \<in> set (rows v). r ! j = Str C \<and> r ! j \<noteq> NaN \<and>
              (\<exists>b. r ! k = Num b \<and> 0 < b \<and> b \<le> 100)"
    proof
      fix r assume "r \<in> set (rows v)"
      then have r: "r \<in> set (rows df)" and c: "r ! j = Str C"
        by (simp_all add: v jj)
      from cat r c have "label_cell (bmi_category (cell_float (r ! k))) = Str C" by auto
      from label_cell_bmi_category [OF this] c
      show "r ! j = Str C \<and> r ! j \<noteq> NaN \<and> (\<exists>b. r ! k = Num b \<and> 0 < b \<and> b \<le> 100)"
        by simp
    qed
    with k j show ?thesis by (auto simp add: v)
  qed
qed

theorem concrete_category_view_witness:
  "load_data example_raw = Inr example_df \<and> rectangular example_raw \<and>
   apply_filters example_df example_names ''Normal'' =
     Inr (example_df\<lparr>rows := [rows example_df ! 0]\<rparr>) \<and>
   ''Normal'' \<noteq> ''All'' \<and>
   (\<exists>k j. get_loc (columns (example_df\<lparr>rows := [rows example_df ! 0]\<rparr>)) ''BMI'' = Some k \<and>
      get_loc (columns (example_df\<lparr>rows := [rows example_df ! 0]\<rparr>)) ''BMI_Category'' = Some j \<and>
      (\<forall>r \<in> set (rows (example_df\<lparr>rows := [rows example_df ! 0]\<rparr>)).
         r ! j = Str ''Normal'' \<and> r ! j \<noteq> NaN \<and>
         (\<exists>b. r ! k = Num b \<and> 0 < b \<and> b \<le> 100)))"
proof -
  have ne: "''Normal'' \<noteq> ''All''" by simp
  from concrete_category_view [OF example_load_data example_rectangular example_Normal ne]
    example_load_data example_rectangular example_Normal ne
  show ?thesis by blast
qed

section \<open>The overview metrics\<close>

lemma count_dropna: "length (filter (\<lambda>v. v \<noteq> None) xs) = length (dropna xs)"
  by (induction xs rule: dropna.induct) auto

lemma sum_dropna:
  "sum_list (map (\<lambda>v. case v of None \<Rightarrow> 0 | Some x \<Rightarrow> x) xs) = sum_list (dropna xs)"
  by (induction xs rule: dropna.induct) auto

lemma series_mean_dropna:
  "series_mean xs =
     (if dropna xs = [] then None
      else Some (sum_list (dropna xs) / real (length (dropna xs))))"
  unfolding series_mean_def Let_def count_dropna sum_dropna by simp

lemma series_max_dropna:
  "series_max xs = (if dropna xs = [] then None else Some (Max (set (dropna xs))))"
  by (induction xs rule: series_max.induct) (auto simp add: max.commute)

lemma py_trunc_Ints: "x \<in> \<int> \<Longrightarrow> real_of_int (py_trunc x) = x"
  by (auto simp add: py_trunc_def elim!: Ints_cases)

lemma overview_present:
  assumes "float_series view ''BMI'' = Inr bmi"
    and "float_series view ''Rel_Grip_perKg'' = Inr grip"
    and "float_series view ''LB_Squat_1min_reps'' = Inr squat"
    and "dropna squat \<noteq> []"
  shows "overview view =
     Inr \<lparr>total_students = length (rows view),
          avg_bmi = series_mean bmi,
          avg_grip = series_mean grip,
          max_squat = py_trunc (Max (set (dropna squat)))\<rparr>"
  using assms by (simp add: overview_def py_int_def series_max_dropna)

text \<open>
  With no squat count present the conversion \<^verbatim>\<open>int(max_squat)\<close> of line 83 is
  applied to NaN and raises.
\<close>

lemma overview_absent:
  assumes "float_series view ''BMI'' = Inr bmi"
    and "float_series view ''Rel_Grip_perKg'' = Inr grip"
    and "float_series view ''LB_Squat_1min_reps'' = Inr squat"
    and "dropna squat = []"
  shows "overview view = Inl ValueError"
  using assms by (simp add: overview_def py_int_def series_max_dropna)

lemma example_BMI: "float_series example_raw ''BMI'' = Inr [Some 20, Some 27.5, None]"
  by code_simp

lemma example_Rel_Grip: "float_series example_raw ''Rel_Grip_perKg'' = Inr [Some 0.5, Some 0.4, None]"
  by code_simp

lemma example_Squat: "float_series example_raw ''LB_Squat_1min_reps'' = Inr [Some 5, None, Some 8]"
  by code_simp

lemma example_overview:
  "overview example_raw =
     Inr \<lparr>total_students = 3, avg_bmi = Some 23.75, avg_grip = Some 0.45, max_squat = 8\<rparr>"
  by code_simp

text \<open>
  C8. The aggregates skip missing values. The mean of a series is the sum of its present
  entries over their number, its maximum is the largest present entry (both NaN when no
  entry is present). For a view whose three metric columns are numeric and that has a
  squat count present, the overview shows these means, and as its maximum the integer
  part of the largest present squat count: that count itself when it is a whole number.
  The three-row table with squat counts 5, missing, 8 shows the maximum 8.
\<close>

theorem aggregates_skip_missing:
  "series_mean xs =
     (if dropna xs = [] then None
      else Some (sum_list (dropna xs) / real (length (dropna xs)))) \<and>
   series_max xs = (if dropna xs = [] then None else Some (Max (set (dropna xs)))) \<and>
   (float_series view ''BMI'' = Inr bmi \<and>
    float_series view ''Rel_Grip_perKg'' = Inr grip \<and>
    float_series view ''LB_Squat_1min_reps'' = Inr squat \<and> dropna squat \<noteq> [] \<longrightarrow>
      overview view =
        Inr \<lparr>total_students = length (rows view),
             avg_bmi = series_mean bmi,
             avg_grip = series_mean grip,
             max_squat = py_trunc (Max (set (dropna squat)))\<rparr> \<and>
      (Max (set (dropna squat)) \<in> \<int> \<longrightarrow>
         real_of_int (py_trunc (Max (set (dropna squat)))) = Max (set (dropna squat)))) \<and>
   float_series example_raw ''LB_Squat_1min_reps'' = Inr [Some 5, None, Some 8] \<and>
   overview example_raw =
     Inr \<lparr>total_students = 3, avg_bmi = Some 23.75, avg_grip = Some 0.45, max_squat = 8\<rparr>"
  using series_mean_dropna [of xs] series_max_dropna [of xs]
    overview_present [of view bmi grip squat] py_trunc_Ints example_Squat example_overview
  by blast

theorem aggregates_skip_missing_witness:
  "float_series example_raw ''BMI'' = Inr [Some 20, Some 27.5, None] \<and>
   float_series example_raw ''Rel_Grip_perKg'' = Inr [Some 0.5, Some 0.4, None] \<and>
   float_series example_raw ''LB_Squat_1min_reps'' = Inr [Some 5, None, Some 8] \<and>
   dropna [Some 5, None, Some 8] \<noteq> [] \<and>
   Max (set (dropna [Some 5, None, Some 8])) \<in> \<int> \<and>
   overview example_raw =
     Inr \<lparr>total_students = length (rows example_raw),
          avg_bmi = series_mean [Some 20, Some 27.5, None],
          avg_grip = series_mean [Some 0.5, Some 0.4, None],
          max_squat = py_trunc (Max (set (dropna [Some 5, None, Some 8])))\<rparr> \<and>
   real_of_int (py_trunc (Max (set (dropna [Some 5, None, Some 8])))) =
     Max (set (dropna [Some 5, None, Some 8]))"
proof -
  have ne: "dropna [Some 5, None, Some (8::real)] \<noteq> []" by simp
  have whole: "Max (set (dropna [Some 5, None, Some (8::real)])) \<in> \<int>" by simp
  from aggregates_skip_missing [of "[]" example_raw "[Some 20, Some 27.5, None]"
      "[Some 0.5, Some 0.4, None]" "[Some 5, None, Some 8]"]
    example_BMI example_Rel_Grip example_Squat ne whole
  show ?thesis by blast
qed

lemma example_empty_BMI: "float_series (example_df\<lparr>rows := []\<rparr>) ''BMI'' = Inr []"
  by code_simp

lemma example_empty_Rel_Grip:
  "float_series (example_df\<lparr>rows := []\<rparr>) ''Rel_Grip_perKg'' = Inr []"
  by code_simp

lemma example_empty_Squat:
  "float_series (example_df\<lparr>rows := []\<rparr>) ''LB_Squat_1min_reps'' = Inr []"
  by code_simp

text \<open>
  For every view whose three metric columns are numeric and in which no row has a squat
  count (the view without rows is one), the overview raises ValueError.
\<close>

theorem overview_raises_without_squat:
  assumes "float_series view ''BMI'' = Inr bmi"
    and "float_series view ''Rel_Grip_perKg'' = Inr grip"
    and "float_series view ''LB_Squat_1min_reps'' = Inr squat"
    and "dropna squat = []"
  shows "overview view = Inl ValueError"
  using assms by (rule overview_absent)

theorem overview_raises_without_squat_witness:
  "float_series (example_df\<lparr>rows := []\<rparr>) ''BMI'' = Inr [] \<and>
   float_series (example_df\<lparr>rows := []\<rparr>) ''Rel_Grip_perKg'' = Inr [] \<and>
   float_series (example_df\<lparr>rows := []\<rparr>) ''LB_Squat_1min_reps'' = Inr [] \<and>
   dropna [] = [] \<and>
   overview (example_df\<lparr>rows := []\<rparr>) = Inl ValueError"
proof -
  have e: "dropna [] = []" by simp
  from overview_raises_without_squat
      [OF example_empty_BMI example_empty_Rel_Grip example_empty_Squat e]
    example_empty_BMI example_empty_Rel_Grip example_empty_Squat e
  show ?thesis by blast
qed

lemma example_nothing_selected: "run_script example_raw [] ''All'' = Inl ValueError"
  by code_simp

lemma example_empty_category: "run_script example_raw [Str ''Bea''] ''Obese'' = Inl ValueError"
  by code_simp

lemma example_no_squat: "run_script example_raw [Str ''Abe''] ''All'' = Inl ValueError"
  by code_simp

lemma example_empty_view:
  "apply_filters example_df [] ''All'' = Inr (example_df\<lparr>rows := []\<rparr>) \<and>
   float_series (example_df\<lparr>rows := []\<rparr>) ''BMI'' = Inr [] \<and>
   float_series (example_df\<lparr>rows := []\<rparr>) ''LB_Squat_1min_reps'' = Inr [] \<and>
   overview (example_df\<lparr>rows := []\<rparr>) = Inl ValueError"
  by code_simp

text \<open>
  C2, as the code behaves. With no student selected the view has no rows; its count is 0
  and the mean of its empty BMI series is NaN, but the overview as a whole ends in the
  ValueError of \<^verbatim>\<open>int(max_squat)\<close>, and with it the run of the script. The same
  happens for a view whose rows all lack the squat count (here the single row of Abe)
  and for a category selection that leaves no row.
\<close>

theorem empty_view_raises:
  "apply_filters example_df [] ''All'' = Inr (example_df\<lparr>rows := []\<rparr>) \<and>
   length (rows (example_df\<lparr>rows := []\<rparr>)) = 0 \<and>
   series_mean [] = None \<and> series_max [] = None \<and>
   overview (example_df\<lparr>rows := []\<rparr>) = Inl ValueError \<and>
   run_script example_raw [] ''All'' = Inl ValueError \<and>
   run_script example_raw [Str ''Abe''] ''All'' = Inl ValueError \<and>
   run_script example_raw [Str ''Bea''] ''Obese'' = Inl ValueError"
  using example_empty_view example_nothing_selected example_no_squat example_empty_category
  by (simp add: series_mean_def)

section \<open>What the later tabs and the download receive\<close>

lemma get_loc_None: "get_loc cols c = None \<longleftrightarrow> c \<notin> set cols"
  by (induction cols) auto

lemma sort_values_columns: "sort_values df c = Inr df' \<Longrightarrow> columns df' = columns df"
  by (auto simp add: sort_values_def Let_def split: option.splits if_splits)

lemma setitem_columns:
  "columns (setitem df c vs) = (if c \<in> set (columns df) then columns df else columns df @ [c])"
  by (auto simp add: setitem_def get_loc_None split: option.splits)
     (metis get_loc_None option.distinct(1))

text \<open>
  The frame the strength tab leaves in \<^verbatim>\<open>filtered_df\<close> has the column
  \<^verbatim>\<open>Rel_Strength_perKg\<close>, appended unless the view had one already.
\<close>

lemma tab2_columns:
  assumes "tab2 filtered_df = Inr filtered_df2"
  shows "columns filtered_df2 =
    (if ''Rel_Strength_perKg'' \<in> set (columns filtered_df) then columns filtered_df
     else columns filtered_df @ [''Rel_Strength_perKg''])"
  using assms
  by (auto simp add: tab2_def setitem_columns split: sum.splits dest!: sort_values_columns)

lemma example_run_columns:
  "map_sum id (\<lambda>p. (columns (filter_output p), header (download p)))
       (run_script example_raw example_names ''All'') =
     Inr (schema @ [''BMI_Category''], schema @ [''BMI_Category'', ''Rel_Strength_perKg''])"
  by code_simp

text \<open>
  On every run of the script that reaches the last tab, the throw charts, the data
  explorer and the download read one and the same frame, the strength tab's: its
  columns, and so the header of the download, are the filtered view's columns followed
  by \<^verbatim>\<open>Rel_Strength_perKg\<close> (unless the view had such a column already).
\<close>

theorem download_reads_strength_frame:
  assumes "run_script raw S C = Inr p"
  shows "header (download p) =
      (if ''Rel_Strength_perKg'' \<in> set (columns (filter_output p))
       then columns (filter_output p)
       else columns (filter_output p) @ [''Rel_Strength_perKg'']) \<and>
    tab2 (filter_output p) = Inr (explorer_view p) \<and>
    throw_view p = explorer_view p \<and>
    header (download p) = columns (explorer_view p) \<and>
    records (download p) = rows (explorer_view p)"
proof -
  from assms obtain df f m f2 where t: "tab2 f = Inr f2"
    and p: "p = \<lparr>filter_output = f, overview_metrics = m, throw_view = f2,
        explorer_view = f2, download = convert_df_to_csv f2\<rparr>"
    by (auto simp add: run_script_def split: sum.splits)
  from tab2_columns [OF t] t show ?thesis
    by (simp add: p convert_df_to_csv_def)
qed

theorem download_reads_strength_frame_witness:
  "\<exists>p. run_script example_raw example_names ''All'' = Inr p \<and>
     header (download p) = schema @ [''BMI_Category'', ''Rel_Strength_perKg''] \<and>
     columns (filter_output p) = schema @ [''BMI_Category''] \<and>
     throw_view p = explorer_view p \<and>
     records (download p) = rows (explorer_view p)"
proof -
  from example_run_columns obtain p where
    p: "run_script example_raw example_names ''All'' = Inr p"
    and c: "columns (filter_output p) = schema @ [''BMI_Category'']"
    and h: "header (download p) = schema @ [''BMI_Category'', ''Rel_Strength_perKg'']"
    by (cases "run_script example_raw example_names ''All''") auto
  from download_reads_strength_frame [OF p] p c h show ?thesis by blast
qed

lemma example_run_names:
  "map_sum id (\<lambda>p. (map (\<lambda>r. r ! 0) (rows (filter_output p)),
                   map (\<lambda>r. r ! 0) (records (download p))))
       (run_script example_raw example_names ''All'') =
     Inr ([Str ''Cleo'', Str ''Abe'', Str ''Bea''], [Str ''Abe'', Str ''Bea'', Str ''Cleo''])"
  by code_simp

lemma example_run_views:
  "map_sum id (\<lambda>p. (filter_output p = example_df,
                   map length (rows (filter_output p)),
                   map length (rows (throw_view p)),
                   map (\<lambda>r. r ! 0) (rows (throw_view p)),
                   explorer_view p = throw_view p,
                   records (download p) = rows (explorer_view p)))
       (run_script example_raw example_names ''All'') =
     Inr (True, [12, 12, 12], [13, 13, 13], [Str ''Abe'', Str ''Bea'', Str ''Cleo''], True, True)"
  by code_simp

text \<open>
  C4, as the code behaves. On the example table with every student selected, the view
  has the loaded table's twelve columns, and the header of the download is those twelve
  followed by \<^verbatim>\<open>Rel_Strength_perKg\<close>; the records come in name order, not in the
  view's order.
\<close>

theorem download_has_added_column:
  "map_sum id (\<lambda>p. (columns (filter_output p), header (download p)))
       (run_script example_raw example_names ''All'') =
     Inr (schema @ [''BMI_Category''], schema @ [''BMI_Category'', ''Rel_Strength_perKg'']) \<and>
   map_sum id (\<lambda>p. (map (\<lambda>r. r ! 0) (rows (filter_output p)),
                   map (\<lambda>r. r ! 0) (records (download p))))
       (run_script example_raw example_names ''All'') =
     Inr ([Str ''Cleo'', Str ''Abe'', Str ''Bea''], [Str ''Abe'', Str ''Bea'', Str ''Cleo''])"
  using example_run_columns example_run_names by simp

text \<open>
  C9, as the code behaves. On the same run the filters' output is the loaded table
  (three rows of twelve cells, in file order), while the frame the throw charts, the
  data explorer and the download read has thirteen cells per row and is in name order:
  it is the strength tab's frame, not the value the filters produced.
\<close>

theorem later_tabs_read_strength_frame:
  "map_sum id (\<lambda>p. (filter_output p = example_df,
                   map length (rows (filter_output p)),
                   map length (rows (throw_view p)),
                   map (\<lambda>r. r ! 0) (rows (throw_view p)),
                   explorer_view p = throw_view p,
                   records (download p) = rows (explorer_view p)))
       (run_script example_raw example_names ''All'') =
     Inr (True, [12, 12, 12], [13, 13, 13], [Str ''Abe'', Str ''Bea'', Str ''Cleo''], True, True)"
  using example_run_views by simp

end
